theory Spec2Isabelle
  imports Main "HOL-Library.Char_ord" "HOL-Library.List_Lexorder"
begin

section \<open>The chargebacks accessor of the Mollie API client (mollie/chargebacks.go)\<close>

text \<open>
  The file \<^verbatim>\<open>src/mollie/chargebacks.go\<close> has three public operations,
  \<^verbatim>\<open>Get\<close>, \<^verbatim>\<open>List\<close> and \<^verbatim>\<open>ListForPayment\<close>, and the private
  \<^verbatim>\<open>list\<close> both list operations end in. Each builds a request URI, hands it to
  the client's \<^verbatim>\<open>NewAPIRequest\<close> and \<^verbatim>\<open>Do\<close>, and decodes the body with
  \<^verbatim>\<open>json.Unmarshal\<close>. A Go \<^verbatim>\<open>string\<close> is a sequence of bytes: it is a
  \<^typ>\<open>string\<close> here, one \<^typ>\<open>char\<close> per byte.
\<close>

subsection \<open>Errors\<close>

text \<open>
  A Go \<^verbatim>\<open>error\<close> is a value. The collaborators return errors of their own
  (the first two constructors); \<^verbatim>\<open>query.Values\<close> has one failure of its own;
  \<^verbatim>\<open>encoding/json\<close> returns a \<^verbatim>\<open>SyntaxError\<close> for bytes that are not
  JSON, an \<^verbatim>\<open>UnmarshalTypeError\<close> (with the description of the JSON value in
  its \<^verbatim>\<open>Value\<close> field) for a JSON value that does not fit its Go destination,
  and whatever error a type's own \<^verbatim>\<open>UnmarshalJSON\<close> or
  \<^verbatim>\<open>MarshalJSON\<close> returns.
\<close>

datatype error =
    RequestConstructionError string
  | TransportError string
  | QueryValuesError string
  | SyntaxError
  | UnmarshalTypeError string
  | UnmarshalerError string
  | MarshalerError string

subsection \<open>net/url: query escaping and \<^verbatim>\<open>Values.Encode\<close>\<close>

text \<open>
  \<^verbatim>\<open>url.Values\<close> is \<^verbatim>\<open>map[string][]string\<close>: an association list with one
  entry per key. \<^verbatim>\<open>Add\<close> appends a value to the key's list.
\<close>

type_synonym Values = "(string \<times> string list) list"

fun Values_Add :: "Values \<Rightarrow> string \<Rightarrow> string \<Rightarrow> Values" where
  "Values_Add [] key val = [(key, [val])]"
| "Values_Add ((k, vs) # rest) key val =
     (if k = key then (k, vs @ [val]) # rest else (k, vs) # Values_Add rest key val)"

text \<open>
  \<^verbatim>\<open>url.QueryEscape\<close>: letters, digits and \<^verbatim>\<open>- _ . ~\<close> stand for themselves,
  a space becomes \<^verbatim>\<open>+\<close>, every other byte becomes \<^verbatim>\<open>%XX\<close> in upper-case
  hexadecimal.
\<close>

definition upperhex :: "nat \<Rightarrow> char" where
  "upperhex n = ''0123456789ABCDEF'' ! (n mod 16)"

definition shouldEscape :: "char \<Rightarrow> bool" where
  "shouldEscape c =
     (let n = (of_char c :: nat) in
      \<not> ((97 \<le> n \<and> n \<le> 122) \<or> (65 \<le> n \<and> n \<le> 90) \<or> (48 \<le> n \<and> n \<le> 57)
         \<or> c = CHR ''-'' \<or> c = CHR ''_'' \<or> c = CHR ''.'' \<or> c = CHR ''~''))"

definition escape_byte :: "char \<Rightarrow> string" where
  "escape_byte c =
     (if shouldEscape c then
        (if c = CHR '' '' then ''+''
         else [CHR ''%'', upperhex (of_char c div 16), upperhex (of_char c mod 16)])
      else [c])"

definition QueryEscape :: "string \<Rightarrow> string" where
  "QueryEscape s = concat (map escape_byte s)"

text \<open>
  \<^verbatim>\<open>Values.Encode\<close>: the keys are sorted (byte-wise), and for every key and every
  value of it, in order, \<^verbatim>\<open>key=value\<close> is written to the buffer, after a
  \<^verbatim>\<open>&\<close> when the buffer is not empty.
\<close>

fun Encode_key :: "string \<Rightarrow> string list \<Rightarrow> string \<Rightarrow> string" where
  "Encode_key keyEscaped [] buf = buf"
| "Encode_key keyEscaped (v # vs) buf =
     Encode_key keyEscaped vs
       ((if buf \<noteq> [] then buf @ ''&'' else buf) @ keyEscaped @ ''='' @ QueryEscape v)"

fun Values_lookup :: "Values \<Rightarrow> string \<Rightarrow> string list" where
  "Values_lookup [] key = []"
| "Values_lookup ((k, vs) # rest) key = (if k = key then vs else Values_lookup rest key)"

fun Encode_keys :: "Values \<Rightarrow> string list \<Rightarrow> string \<Rightarrow> string" where
  "Encode_keys v [] buf = buf"
| "Encode_keys v (k # keys) buf =
     Encode_keys v keys (Encode_key (QueryEscape k) (Values_lookup v k) buf)"

definition Encode :: "Values \<Rightarrow> string" where
  "Encode v = (if v = [] then [] else Encode_keys v (sort (map fst v)) [])"

subsection \<open>go-querystring: \<^verbatim>\<open>query.Values\<close> on the two options structs\<close>

record ChargebackOptions =
  Include :: string
  Embed :: string

text \<open>
  \<^verbatim>\<open>ListChargebackOptions\<close> declares the same two fields and then
  \<^verbatim>\<open>ProfileID\<close>; as a record it extends the first one by that field.
\<close>

record ListChargebackOptions = ChargebackOptions +
  ProfileID :: string

text \<open>
  \<^verbatim>\<open>query.Values(v interface{})\<close> takes any Go value and looks at it through
  reflection. What it can see of its argument: nil, a pointer to something, a struct
  (here: its fields in order, each a string tagged \<^verbatim>\<open>url:"name,omitempty"\<close>,
  given by name and value; no other kind of field occurs in this file), or a value of
  another kind, given by the name of the kind.
\<close>

datatype reflected =
    NilValue
  | Pointer reflected
  | Struct "(string \<times> string) list"
  | Other string

text \<open>
  \<^verbatim>\<open>query.Values\<close> follows pointers; for nil it returns empty values and no
  error; for a value that is not a struct it returns nil values and the error
  \<^verbatim>\<open>query: Values() expects struct input\<close>; for a struct it walks the fields in
  their order, skips an empty string (\<^verbatim>\<open>omitempty\<close>) and adds another one under
  its name, and returns the values with a nil error.
\<close>

definition reflectField :: "Values \<Rightarrow> string \<times> string \<Rightarrow> Values" where
  "reflectField values field =
     (case field of (name, sv) \<Rightarrow> if sv = [] then values else Values_Add values name sv)"

fun query_Values :: "reflected \<Rightarrow> Values \<times> error option" where
  "query_Values NilValue = ([], None)"
| "query_Values (Pointer val) = query_Values val"
| "query_Values (Struct fs) = (foldl reflectField [] fs, None)"
| "query_Values (Other kind) =
     ([], Some (QueryValuesError (''query: Values() expects struct input. Got '' @ kind)))"

text \<open>
  The two options structs as \<^verbatim>\<open>query.Values\<close> sees them: the operations pass
  a pointer to the struct.
\<close>

definition reflect_ChargebackOptions :: "ChargebackOptions \<Rightarrow> reflected" where
  "reflect_ChargebackOptions opts =
     Pointer (Struct [(''include'', Include opts), (''embed'', Embed opts)])"

definition reflect_ListChargebackOptions :: "ListChargebackOptions \<Rightarrow> reflected" where
  "reflect_ListChargebackOptions opts =
     Pointer (Struct [(''include'', Include opts), (''embed'', Embed opts),
                      (''profileId'', ProfileID opts)])"

definition query_Values_ChargebackOptions :: "ChargebackOptions \<Rightarrow> Values \<times> error option" where
  "query_Values_ChargebackOptions opts = query_Values (reflect_ChargebackOptions opts)"

definition query_Values_ListChargebackOptions ::
  "ListChargebackOptions \<Rightarrow> Values \<times> error option" where
  "query_Values_ListChargebackOptions opts = query_Values (reflect_ListChargebackOptions opts)"

subsection \<open>The request URIs (lines 64-68, 87-91, 99-103)\<close>

text \<open>
  The three operations share two lines:
  \<^verbatim>\<open>v, _ := query.Values(options); u = fmt.Sprintf("%s?%s", u, v.Encode())\<close>.
  The error of \<^verbatim>\<open>query.Values\<close> is bound to the blank identifier.
\<close>

definition append_query :: "string \<Rightarrow> Values \<times> error option \<Rightarrow> string" where
  "append_query u r = (case r of (v, _) \<Rightarrow> u @ ''?'' @ Encode v)"

text \<open>
  Each URI is first given for any value handed to \<^verbatim>\<open>query.Values\<close> in the place of
  \<^verbatim>\<open>options\<close> (the lines of the source, read without the static type of the
  parameter), and then for the options struct the operation declares.
\<close>

definition Get_uri_of :: "string \<Rightarrow> string \<Rightarrow> reflected option \<Rightarrow> string" where
  "Get_uri_of paymentID chargebackID options =
     (let u = ''v2/payments/'' @ paymentID @ ''/chargebacks/'' @ chargebackID in
      case options of
        None \<Rightarrow> u
      | Some opts \<Rightarrow> append_query u (query_Values opts))"

definition Get_uri :: "string \<Rightarrow> string \<Rightarrow> ChargebackOptions option \<Rightarrow> string" where
  "Get_uri paymentID chargebackID options =
     Get_uri_of paymentID chargebackID (map_option reflect_ChargebackOptions options)"

definition List_uri_of :: "reflected option \<Rightarrow> string" where
  "List_uri_of options =
     (let u = ''v2/chargebacks'' in
      case options of
        None \<Rightarrow> u
      | Some opts \<Rightarrow> append_query u (query_Values opts))"

definition List_uri :: "ListChargebackOptions option \<Rightarrow> string" where
  "List_uri options = List_uri_of (map_option reflect_ListChargebackOptions options)"

definition ListForPayment_uri_of :: "string \<Rightarrow> reflected option \<Rightarrow> string" where
  "ListForPayment_uri_of paymentID options =
     (let u = ''v2/payments/'' @ paymentID @ ''/chargebacks'' in
      case options of
        None \<Rightarrow> u
      | Some opts \<Rightarrow> append_query u (query_Values opts))"

definition ListForPayment_uri :: "string \<Rightarrow> ListChargebackOptions option \<Rightarrow> string" where
  "ListForPayment_uri paymentID options =
     ListForPayment_uri_of paymentID (map_option reflect_ListChargebackOptions options)"

subsection \<open>encoding/json: documents, outcomes, stores\<close>

text \<open>
  \<^verbatim>\<open>json.Unmarshal\<close> first checks that the bytes are one well-formed JSON text
  and returns a \<^verbatim>\<open>SyntaxError\<close>, the destination untouched, when they are not;
  then it walks the text and stores into the destination. The grammar of JSON texts
  is not modelled: a body is either malformed or the syntax tree of its text, object
  members in the order of the text, strings unquoted, number literals as written.
\<close>

datatype json =
    JNull
  | JBool bool
  | JNumber string
  | JString string
  | JArray "json list"
  | JObject "(string \<times> json) list"

datatype body = Malformed | Document json

text \<open>
  A store mutates its destination and ends in one of three ways: with no error, with
  a saved \<^verbatim>\<open>UnmarshalTypeError\<close> (\<^verbatim>\<open>d.saveError\<close>: the decoder skips the
  value and goes on, and the first saved error is returned at the end), or with an error
  returned at once (that of a type's own \<^verbatim>\<open>UnmarshalJSON\<close>), which stops the walk
  where it stands.
\<close>

datatype outcome = Done | Saved error | Abort error

definition andThen :: "outcome \<Rightarrow> outcome \<Rightarrow> outcome" where
  "andThen a b =
     (case b of
        Abort e \<Rightarrow> Abort e
      | Saved e \<Rightarrow> (case a of Saved e' \<Rightarrow> Saved e' | _ \<Rightarrow> Saved e)
      | Done \<Rightarrow> a)"

type_synonym 'a store = "json \<Rightarrow> 'a \<Rightarrow> 'a \<times> outcome"

definition json_Unmarshal :: "'a store \<Rightarrow> body \<Rightarrow> 'a \<Rightarrow> 'a \<times> error option" where
  "json_Unmarshal st data v =
     (case data of
        Malformed \<Rightarrow> (v, Some SyntaxError)
      | Document j \<Rightarrow>
          (case st j v of
             (v', Done) \<Rightarrow> (v', None)
           | (v', Saved e) \<Rightarrow> (v', Some e)
           | (v', Abort e) \<Rightarrow> (v', Some e)))"

text \<open>The \<^verbatim>\<open>Value\<close> field of the \<^verbatim>\<open>UnmarshalTypeError\<close> for a JSON value.\<close>

fun mismatch :: "json \<Rightarrow> error" where
  "mismatch JNull = UnmarshalTypeError ''null''"
| "mismatch (JBool b) = UnmarshalTypeError ''bool''"
| "mismatch (JNumber lit) = UnmarshalTypeError ''number''"
| "mismatch (JString s) = UnmarshalTypeError ''string''"
| "mismatch (JArray js) = UnmarshalTypeError ''array''"
| "mismatch (JObject ms) = UnmarshalTypeError ''object''"

text \<open>
  A Go \<^verbatim>\<open>string\<close> destination takes a JSON string; \<^verbatim>\<open>null\<close> leaves it as
  it is; any other value is a type mismatch.
\<close>

definition string_store :: "string store" where
  "string_store j v =
     (case j of JString s \<Rightarrow> (s, Done) | JNull \<Rightarrow> (v, Done) | _ \<Rightarrow> (v, Saved (mismatch j)))"

text \<open>
  \<^verbatim>\<open>strconv.ParseInt(s, 10, 64)\<close>: an optional sign, then decimal digits only, and
  the value within 64 bits. \<^verbatim>\<open>Count\<close> is a Go \<^verbatim>\<open>int\<close> (64 bits on the
  platforms the client targets); it only ever holds what this function returns, so it
  is an \<^typ>\<open>int\<close> here.
\<close>

definition isDigit :: "char \<Rightarrow> bool" where
  "isDigit c = (48 \<le> (of_char c :: nat) \<and> (of_char c :: nat) \<le> 57)"

definition ParseUint :: "string \<Rightarrow> int option" where
  "ParseUint ds =
     (if ds = [] \<or> \<not> list_all isDigit ds then None
      else Some (foldl (\<lambda>a c. 10 * a + (of_char c - 48)) 0 ds))"

definition ParseInt :: "string \<Rightarrow> int option" where
  "ParseInt s =
     (case s of
        [] \<Rightarrow> None
      | c # r \<Rightarrow>
          (let neg = (c = CHR ''-''); ds = (if c = CHR ''+'' \<or> c = CHR ''-'' then r else s) in
           case ParseUint ds of
             None \<Rightarrow> None
           | Some un \<Rightarrow>
               if \<not> neg \<and> 2 ^ 63 \<le> un then None
               else if neg \<and> 2 ^ 63 < un then None
               else Some (if neg then - un else un)))"

definition int_store :: "int store" where
  "int_store j v =
     (case j of
        JNumber lit \<Rightarrow>
          (case ParseInt lit of
             Some n \<Rightarrow> (n, Done)
           | None \<Rightarrow> (v, Saved (UnmarshalTypeError (''number '' @ lit))))
      | JNull \<Rightarrow> (v, Done)
      | _ \<Rightarrow> (v, Saved (mismatch j)))"

text \<open>
  A pointer destination: \<^verbatim>\<open>null\<close> sets it to nil; for any other value a nil
  pointer is first set to a new zero value, and the value is stored into what the
  pointer points to.
\<close>

definition pointer_store :: "'a \<Rightarrow> 'a store \<Rightarrow> 'a option store" where
  "pointer_store zero st j p =
     (case j of
        JNull \<Rightarrow> (None, Done)
      | _ \<Rightarrow> (case st j (case p of None \<Rightarrow> zero | Some x \<Rightarrow> x) of (x, out) \<Rightarrow> (Some x, out)))"

text \<open>
  A slice destination (a nil slice is \<^const>\<open>None\<close>): \<^verbatim>\<open>null\<close> sets it to
  nil; an array stores its i-th element into the slice's i-th element, a zero value
  when the slice is shorter, and cuts the slice to the array's length (an empty array
  gives an empty, non-nil slice). An error returned at once leaves the slice at the
  length it has reached. The capacity of a slice beyond its length is not modelled.
\<close>

fun array_loop :: "'a \<Rightarrow> 'a store \<Rightarrow> json list \<Rightarrow> 'a list \<Rightarrow> 'a list \<times> outcome" where
  "array_loop zero st [] old = ([], Done)"
| "array_loop zero st (j # js) old =
     (let cur = (case old of [] \<Rightarrow> zero | x # xs \<Rightarrow> x); rest = tl old in
      case st j cur of
        (x, Abort e) \<Rightarrow> (x # rest, Abort e)
      | (x, out) \<Rightarrow> (case array_loop zero st js rest of (xs, out') \<Rightarrow> (x # xs, andThen out out')))"

definition slice_store :: "'a \<Rightarrow> 'a store \<Rightarrow> 'a list option store" where
  "slice_store zero st j v =
     (case j of
        JArray js \<Rightarrow>
          (case array_loop zero st js (case v of None \<Rightarrow> [] | Some xs \<Rightarrow> xs) of
             (xs, out) \<Rightarrow> (Some xs, out))
      | JNull \<Rightarrow> (None, Done)
      | _ \<Rightarrow> (v, Saved (mismatch j)))"

text \<open>
  A struct destination takes an object. For every member, in order, the field is
  looked up by the member's key: the field of exactly that name, else the first field
  whose name is the key up to case. Case folding is Unicode's simple folding; the names
  here are ASCII, and the only runes outside ASCII that fold to an ASCII letter are
  the Kelvin sign U+212A (to K) and the long s U+017F (to S). A member that names no
  field is skipped. \<^verbatim>\<open>null\<close> leaves a struct as it is.
\<close>

fun foldName :: "string \<Rightarrow> string" where
  "foldName [] = []"
| "foldName (c # cs) =
     (if c = CHR 0xE2 \<and> take 2 cs = [CHR 0x84, CHR 0xAA] then CHR ''K'' # foldName (drop 2 cs)
      else if c = CHR 0xC5 \<and> take 1 cs = [CHR 0xBF] then CHR ''S'' # foldName (drop 1 cs)
      else if 97 \<le> (of_char c :: nat) \<and> (of_char c :: nat) \<le> 122
        then char_of (of_char c - (32 :: nat)) # foldName cs
      else c # foldName cs)"

definition findField :: "string list \<Rightarrow> string \<Rightarrow> string option" where
  "findField names key =
     (if key \<in> set names then Some key
      else find (\<lambda>name. foldName name = foldName key) names)"

fun object_loop ::
  "(string \<Rightarrow> 'a store) \<Rightarrow> string list \<Rightarrow> (string \<times> json) list \<Rightarrow> 'a \<Rightarrow> 'a \<times> outcome" where
  "object_loop setField names [] v = (v, Done)"
| "object_loop setField names ((key, j) # members) v =
     (case findField names key of
        None \<Rightarrow> object_loop setField names members v
      | Some f \<Rightarrow>
          (case setField f j v of
             (v', Abort e) \<Rightarrow> (v', Abort e)
           | (v', out) \<Rightarrow>
               (case object_loop setField names members v' of
                  (v'', out') \<Rightarrow> (v'', andThen out out'))))"

definition struct_store :: "(string \<Rightarrow> 'a store) \<Rightarrow> string list \<Rightarrow> 'a store" where
  "struct_store setField names j v =
     (case j of
        JObject members \<Rightarrow> object_loop setField names members v
      | JNull \<Rightarrow> (v, Done)
      | _ \<Rightarrow> (v, Saved (mismatch j)))"

text \<open>
  \<^verbatim>\<open>json.Marshal\<close> writes a Go string coerced to valid UTF-8: every byte that
  does not start a well-formed UTF-8 sequence (\<^verbatim>\<open>utf8.DecodeRuneInString\<close>
  returns \<^verbatim>\<open>RuneError\<close> with size 1) is replaced by U+FFFD, the bytes EF BF BD.
  \<^verbatim>\<open>runeLen\<close> is the size of the well-formed sequence at the head of the string,
  0 when there is none.
\<close>

definition inRange :: "nat \<Rightarrow> nat \<Rightarrow> string \<Rightarrow> nat \<Rightarrow> bool" where
  "inRange lo hi s i = (i < length s \<and> lo \<le> of_char (s ! i) \<and> (of_char (s ! i) :: nat) \<le> hi)"

definition runeLen :: "string \<Rightarrow> nat" where
  "runeLen s =
     (case s of
        [] \<Rightarrow> 0
      | c # cs \<Rightarrow>
          (let b = (of_char c :: nat); cont = inRange 0x80 0xBF s in
           if b < 0x80 then 1
           else if 0xC2 \<le> b \<and> b \<le> 0xDF then (if cont 1 then 2 else 0)
           else if b = 0xE0 then (if inRange 0xA0 0xBF s 1 \<and> cont 2 then 3 else 0)
           else if b = 0xED then (if inRange 0x80 0x9F s 1 \<and> cont 2 then 3 else 0)
           else if 0xE1 \<le> b \<and> b \<le> 0xEF then (if cont 1 \<and> cont 2 then 3 else 0)
           else if b = 0xF0 then (if inRange 0x90 0xBF s 1 \<and> cont 2 \<and> cont 3 then 4 else 0)
           else if 0xF1 \<le> b \<and> b \<le> 0xF3 then (if cont 1 \<and> cont 2 \<and> cont 3 then 4 else 0)
           else if b = 0xF4 then (if inRange 0x80 0x8F s 1 \<and> cont 2 \<and> cont 3 then 4 else 0)
           else 0))"

function coerceUTF8 :: "string \<Rightarrow> string" where
  "coerceUTF8 s =
     (if s = [] then []
      else if runeLen s = 0 then [CHR 0xEF, CHR 0xBF, CHR 0xBD] @ coerceUTF8 (drop 1 s)
      else take (runeLen s) s @ coerceUTF8 (drop (runeLen s) s))"
  by pat_completeness auto
termination
  by (relation "measure length") auto

declare coerceUTF8.simps [simp del]







subsection \<open>Types declared outside this file\<close>

text \<open>
  \<^verbatim>\<open>Amount\<close>, \<^verbatim>\<open>URL\<close> and \<^verbatim>\<open>PaginationLinks\<close> are declared elsewhere
  in the package and \<^verbatim>\<open>time.Time\<close> in the standard library. They are type
  parameters here, each with what \<^verbatim>\<open>encoding/json\<close> needs of a type: its zero
  value, how a JSON value is stored into it, and how it is marshalled.
\<close>

record 'a jsonType =
  zeroValue :: 'a
  unmarshal :: "'a store"
  marshal :: "'a \<Rightarrow> error + json"

record ('amount, 'url, 'time, 'plinks) declared =
  AmountT :: "'amount jsonType"
  URLT :: "'url jsonType"
  TimeT :: "'time jsonType"
  PaginationLinksT :: "'plinks jsonType"

subsection \<open>The data model (lines 14-54)\<close>

record 'url ChargebackLinks =
  Self :: "'url option"
  Payment :: "'url option"
  Settlement :: "'url option"
  Documentation :: "'url option"

record ('amount, 'url, 'time) Chargeback =
  Resource :: string
  ID :: string
  Amount :: "'amount option"
  SettlementAmount :: "'amount option"
  CreatedAt :: "'time option"
  ReversedAt :: "'time option"
  PaymentID :: string
  Links :: "'url ChargebackLinks"

text \<open>The anonymous struct of \<^verbatim>\<open>ChargebackList.Embedded\<close>; its one field has no tag.\<close>

record ('amount, 'url, 'time) Embedded_struct =
  Chargebacks :: "('amount, 'url, 'time) Chargeback list option"

record ('amount, 'url, 'time, 'plinks) ChargebackList =
  Count :: int
  Embedded :: "('amount, 'url, 'time) Embedded_struct"
  Links :: 'plinks

text \<open>The zero values of Go: empty strings, nil pointers, nil slices, 0.\<close>

definition zero_ChargebackLinks :: "'url ChargebackLinks" where
  "zero_ChargebackLinks =
     \<lparr>Self = None, Payment = None, Settlement = None, Documentation = None\<rparr>"

definition zero_Chargeback :: "('amount, 'url, 'time) Chargeback" where
  "zero_Chargeback =
     \<lparr>Resource = [], ID = [], Amount = None, SettlementAmount = None, CreatedAt = None,
      ReversedAt = None, PaymentID = [], Chargeback.Links = zero_ChargebackLinks\<rparr>"

definition zero_ChargebackList ::
  "('amount, 'url, 'time, 'plinks) declared \<Rightarrow> ('amount, 'url, 'time, 'plinks) ChargebackList" where
  "zero_ChargebackList T =
     \<lparr>Count = 0, Embedded = \<lparr>Chargebacks = None\<rparr>,
      ChargebackList.Links = zeroValue (PaginationLinksT T)\<rparr>"

subsection \<open>Storing a JSON value into the structs of this file\<close>

text \<open>
  The JSON name of a field is the name in its \<^verbatim>\<open>json\<close> tag; the untagged field
  \<^verbatim>\<open>Chargebacks\<close> goes by its Go name.
\<close>

definition ChargebackLinks_names :: "string list" where
  "ChargebackLinks_names = [''self'', ''payment'', ''settlement'', ''documentation'']"

definition ChargebackLinks_setField ::
  "('amount, 'url, 'time, 'plinks) declared \<Rightarrow> string \<Rightarrow> 'url ChargebackLinks store" where
  "ChargebackLinks_setField T f j l =
     (let url = pointer_store (zeroValue (URLT T)) (unmarshal (URLT T)) j in
      if f = ''self'' then (case url (Self l) of (p, out) \<Rightarrow> (l\<lparr>Self := p\<rparr>, out))
      else if f = ''payment'' then (case url (Payment l) of (p, out) \<Rightarrow> (l\<lparr>Payment := p\<rparr>, out))
      else if f = ''settlement'' then
        (case url (Settlement l) of (p, out) \<Rightarrow> (l\<lparr>Settlement := p\<rparr>, out))
      else if f = ''documentation'' then
        (case url (Documentation l) of (p, out) \<Rightarrow> (l\<lparr>Documentation := p\<rparr>, out))
      else (l, Done))"

definition ChargebackLinks_store ::
  "('amount, 'url, 'time, 'plinks) declared \<Rightarrow> 'url ChargebackLinks store" where
  "ChargebackLinks_store T = struct_store (ChargebackLinks_setField T) ChargebackLinks_names"

definition Chargeback_names :: "string list" where
  "Chargeback_names =
     [''resource'', ''id'', ''amount'', ''settlementAmount'', ''createdAt'', ''reversedAt'',
      ''paymentId'', ''_links'']"

definition Chargeback_setField ::
  "('amount, 'url, 'time, 'plinks) declared \<Rightarrow> string \<Rightarrow> ('amount, 'url, 'time) Chargeback store" where
  "Chargeback_setField T f j c =
     (let amount = pointer_store (zeroValue (AmountT T)) (unmarshal (AmountT T)) j;
          time = pointer_store (zeroValue (TimeT T)) (unmarshal (TimeT T)) j in
      if f = ''resource'' then
        (case string_store j (Resource c) of (s, out) \<Rightarrow> (c\<lparr>Resource := s\<rparr>, out))
      else if f = ''id'' then
        (case string_store j (ID c) of (s, out) \<Rightarrow> (c\<lparr>ID := s\<rparr>, out))
      else if f = ''amount'' then
        (case amount (Amount c) of (p, out) \<Rightarrow> (c\<lparr>Amount := p\<rparr>, out))
      else if f = ''settlementAmount'' then
        (case amount (SettlementAmount c) of (p, out) \<Rightarrow> (c\<lparr>SettlementAmount := p\<rparr>, out))
      else if f = ''createdAt'' then
        (case time (CreatedAt c) of (p, out) \<Rightarrow> (c\<lparr>CreatedAt := p\<rparr>, out))
      else if f = ''reversedAt'' then
        (case time (ReversedAt c) of (p, out) \<Rightarrow> (c\<lparr>ReversedAt := p\<rparr>, out))
      else if f = ''paymentId'' then
        (case string_store j (PaymentID c) of (s, out) \<Rightarrow> (c\<lparr>PaymentID := s\<rparr>, out))
      else if f = ''_links'' then
        (case ChargebackLinks_store T j (Chargeback.Links c) of
           (l, out) \<Rightarrow> (c\<lparr>Chargeback.Links := l\<rparr>, out))
      else (c, Done))"

definition Chargeback_store ::
  "('amount, 'url, 'time, 'plinks) declared \<Rightarrow> ('amount, 'url, 'time) Chargeback store" where
  "Chargeback_store T = struct_store (Chargeback_setField T) Chargeback_names"

definition Embedded_setField ::
  "('amount, 'url, 'time, 'plinks) declared \<Rightarrow> string \<Rightarrow>
     ('amount, 'url, 'time) Embedded_struct store" where
  "Embedded_setField T f j e =
     (if f = ''Chargebacks'' then
        (case slice_store zero_Chargeback (Chargeback_store T) j (Chargebacks e) of
           (xs, out) \<Rightarrow> (e\<lparr>Chargebacks := xs\<rparr>, out))
      else (e, Done))"

definition Embedded_store ::
  "('amount, 'url, 'time, 'plinks) declared \<Rightarrow> ('amount, 'url, 'time) Embedded_struct store" where
  "Embedded_store T = struct_store (Embedded_setField T) [''Chargebacks'']"

definition ChargebackList_names :: "string list" where
  "ChargebackList_names = [''count'', ''_embedded'', ''_links'']"

definition ChargebackList_setField ::
  "('amount, 'url, 'time, 'plinks) declared \<Rightarrow> string \<Rightarrow>
     ('amount, 'url, 'time, 'plinks) ChargebackList store" where
  "ChargebackList_setField T f j cl =
     (if f = ''count'' then
        (case int_store j (Count cl) of (n, out) \<Rightarrow> (cl\<lparr>Count := n\<rparr>, out))
      else if f = ''_embedded'' then
        (case Embedded_store T j (Embedded cl) of (e, out) \<Rightarrow> (cl\<lparr>Embedded := e\<rparr>, out))
      else if f = ''_links'' then
        (case unmarshal (PaginationLinksT T) j (ChargebackList.Links cl) of
           (l, out) \<Rightarrow> (cl\<lparr>ChargebackList.Links := l\<rparr>, out))
      else (cl, Done))"

definition ChargebackList_store ::
  "('amount, 'url, 'time, 'plinks) declared \<Rightarrow>
     ('amount, 'url, 'time, 'plinks) ChargebackList store" where
  "ChargebackList_store T = struct_store (ChargebackList_setField T) ChargebackList_names"

subsection \<open>Marshalling a Chargeback (the \<^verbatim>\<open>json\<close> tags of lines 14-32)\<close>



subsection \<open>The client and the operations (lines 57-121)\<close>

text \<open>
  Modelled from the spec: the client's \<^verbatim>\<open>NewAPIRequest\<close> and \<^verbatim>\<open>Do\<close> and its
  \<^verbatim>\<open>Response\<close> are not in this file. The RequestBuilder "turns (context, method,
  URL path, body) into a transport-ready request object; may fail"; the Transport
  "executes a request and returns a raw response (including raw body bytes); may
  fail". Of the response only \<^verbatim>\<open>content\<close> is read.
\<close>

record Response =
  content :: body

record ('ctx, 'req) Client =
  NewAPIRequest :: "'ctx \<Rightarrow> string \<Rightarrow> string \<Rightarrow> string option \<Rightarrow> error + 'req"
  Do :: "'req \<Rightarrow> error + Response"

record ('ctx, 'req) ChargebacksService =
  client :: "('ctx, 'req) Client"

definition MethodGet :: string where
  "MethodGet = ''GET''"

text \<open>
  \<^verbatim>\<open>Get\<close> has the named results \<^verbatim>\<open>p\<close> and \<^verbatim>\<open>err\<close>: \<^verbatim>\<open>p\<close> starts as
  the zero Chargeback, \<^verbatim>\<open>json.Unmarshal\<close> stores into it, and every
  \<^verbatim>\<open>return\<close> returns what \<^verbatim>\<open>p\<close> and \<^verbatim>\<open>err\<close> hold then.
  As with the URIs, each public operation is first given for any value in the place of
  \<^verbatim>\<open>options\<close> and then for the options struct it declares.
\<close>

definition ChargebacksService_Get_of ::
  "('amount, 'url, 'time, 'plinks) declared \<Rightarrow> ('ctx, 'req) ChargebacksService \<Rightarrow> 'ctx \<Rightarrow>
     string \<Rightarrow> string \<Rightarrow> reflected option \<Rightarrow>
     ('amount, 'url, 'time) Chargeback \<times> error option" where
  "ChargebacksService_Get_of T cs ctx paymentID chargebackID options =
     (let u = Get_uri_of paymentID chargebackID options;
          p = zero_Chargeback in
      case NewAPIRequest (client cs) ctx MethodGet u None of
        Inl err \<Rightarrow> (p, Some err)
      | Inr req \<Rightarrow>
          (case Do (client cs) req of
             Inl err \<Rightarrow> (p, Some err)
           | Inr res \<Rightarrow> json_Unmarshal (Chargeback_store T) (content res) p))"

definition ChargebacksService_Get ::
  "('amount, 'url, 'time, 'plinks) declared \<Rightarrow> ('ctx, 'req) ChargebacksService \<Rightarrow> 'ctx \<Rightarrow>
     string \<Rightarrow> string \<Rightarrow> ChargebackOptions option \<Rightarrow>
     ('amount, 'url, 'time) Chargeback \<times> error option" where
  "ChargebacksService_Get T cs ctx paymentID chargebackID options =
     ChargebacksService_Get_of T cs ctx paymentID chargebackID
       (map_option reflect_ChargebackOptions options)"

text \<open>
  \<^verbatim>\<open>list\<close> has the named results \<^verbatim>\<open>cl\<close>, a nil pointer at first, and
  \<^verbatim>\<open>err\<close>; \<^verbatim>\<open>json.Unmarshal\<close> is given the address of the pointer.
\<close>

definition ChargebacksService_list ::
  "('amount, 'url, 'time, 'plinks) declared \<Rightarrow> ('ctx, 'req) ChargebacksService \<Rightarrow> 'ctx \<Rightarrow>
     string \<Rightarrow> ('amount, 'url, 'time, 'plinks) ChargebackList option \<times> error option" where
  "ChargebacksService_list T cs ctx uri =
     (let cl = None in
      case NewAPIRequest (client cs) ctx MethodGet uri None of
        Inl err \<Rightarrow> (cl, Some err)
      | Inr req \<Rightarrow>
          (case Do (client cs) req of
             Inl err \<Rightarrow> (cl, Some err)
           | Inr res \<Rightarrow>
               json_Unmarshal (pointer_store (zero_ChargebackList T) (ChargebackList_store T))
                 (content res) cl))"

definition ChargebacksService_List_of ::
  "('amount, 'url, 'time, 'plinks) declared \<Rightarrow> ('ctx, 'req) ChargebacksService \<Rightarrow> 'ctx \<Rightarrow>
     reflected option \<Rightarrow>
     ('amount, 'url, 'time, 'plinks) ChargebackList option \<times> error option" where
  "ChargebacksService_List_of T cs ctx options =
     ChargebacksService_list T cs ctx (List_uri_of options)"

definition ChargebacksService_List ::
  "('amount, 'url, 'time, 'plinks) declared \<Rightarrow> ('ctx, 'req) ChargebacksService \<Rightarrow> 'ctx \<Rightarrow>
     ListChargebackOptions option \<Rightarrow>
     ('amount, 'url, 'time, 'plinks) ChargebackList option \<times> error option" where
  "ChargebacksService_List T cs ctx options =
     ChargebacksService_List_of T cs ctx (map_option reflect_ListChargebackOptions options)"

definition ChargebacksService_ListForPayment_of ::
  "('amount, 'url, 'time, 'plinks) declared \<Rightarrow> ('ctx, 'req) ChargebacksService \<Rightarrow> 'ctx \<Rightarrow>
     string \<Rightarrow> reflected option \<Rightarrow>
     ('amount, 'url, 'time, 'plinks) ChargebackList option \<times> error option" where
  "ChargebacksService_ListForPayment_of T cs ctx paymentID options =
     ChargebacksService_list T cs ctx (ListForPayment_uri_of paymentID options)"

definition ChargebacksService_ListForPayment ::
  "('amount, 'url, 'time, 'plinks) declared \<Rightarrow> ('ctx, 'req) ChargebacksService \<Rightarrow> 'ctx \<Rightarrow>
     string \<Rightarrow> ListChargebackOptions option \<Rightarrow>
     ('amount, 'url, 'time, 'plinks) ChargebackList option \<times> error option" where
  "ChargebacksService_ListForPayment T cs ctx paymentID options =
     ChargebacksService_ListForPayment_of T cs ctx paymentID
       (map_option reflect_ListChargebackOptions options)"

subsection \<open>The query string as the specification words it\<close>

text \<open>
  "Every field in an options struct maps to a URL parameter using its declared name,
  included only if non-empty": of the given (name, value) pairs those with a non-empty
  value, each written \<^verbatim>\<open>name=value\<close> with the value escaped, joined by
  \<^verbatim>\<open>&\<close>.
\<close>

fun join_amp :: "string list \<Rightarrow> string" where
  "join_amp [] = []"
| "join_amp [x] = x"
| "join_amp (x # y # ys) = x @ ''&'' @ join_amp (y # ys)"

definition spec_query :: "(string \<times> string) list \<Rightarrow> string" where
  "spec_query params =
     join_amp (map (\<lambda>(name, val). name @ ''='' @ QueryEscape val)
                   (filter (\<lambda>(name, val). val \<noteq> []) params))"

subsection \<open>Reading a query string back\<close>

text \<open>
  What the receiver of the request makes of a query string (\<^verbatim>\<open>url.ParseQuery\<close>,
  taken strictly: one bad piece and the whole string is refused). The string is split
  at every \<^verbatim>\<open>&\<close>; an empty piece is skipped; a piece is cut at its first
  \<^verbatim>\<open>=\<close> into key and value, and both are unescaped: \<^verbatim>\<open>%XX\<close> is the byte
  with that hexadecimal code, \<^verbatim>\<open>+\<close> is a space, any other byte is itself.
\<close>

definition unhex :: "char \<Rightarrow> nat option" where
  "unhex c =
     (let n = (of_char c :: nat) in
      if 48 \<le> n \<and> n \<le> 57 then Some (n - 48)
      else if 97 \<le> n \<and> n \<le> 102 then Some (n - 97 + 10)
      else if 65 \<le> n \<and> n \<le> 70 then Some (n - 65 + 10)
      else None)"

fun QueryUnescape :: "string \<Rightarrow> string option" where
  "QueryUnescape [] = Some []"
| "QueryUnescape (c # cs) =
     (if c = CHR ''%'' then
        (case cs of
           h1 # h2 # rest \<Rightarrow>
             (case (unhex h1, unhex h2) of
                (Some a, Some b) \<Rightarrow> map_option ((#) (char_of (16 * a + b))) (QueryUnescape rest)
              | _ \<Rightarrow> None)
         | _ \<Rightarrow> None)
      else if c = CHR ''+'' then map_option ((#) CHR '' '') (QueryUnescape cs)
      else map_option ((#) c) (QueryUnescape cs))"

fun splitOn :: "char \<Rightarrow> string \<Rightarrow> string list" where
  "splitOn sep [] = [[]]"
| "splitOn sep (c # cs) =
     (if c = sep then [] # splitOn sep cs
      else (case splitOn sep cs of p # ps \<Rightarrow> (c # p) # ps | [] \<Rightarrow> [[c]]))"

fun cut :: "char \<Rightarrow> string \<Rightarrow> string \<times> string" where
  "cut sep [] = ([], [])"
| "cut sep (c # cs) = (if c = sep then ([], cs) else (case cut sep cs of (a, b) \<Rightarrow> (c # a, b)))"

fun parsePieces :: "string list \<Rightarrow> (string \<times> string) list option" where
  "parsePieces [] = Some []"
| "parsePieces (piece # pieces) =
     (if CHR '';'' \<in> set piece then None
      else if piece = [] then parsePieces pieces
      else
        (case cut CHR ''='' piece of
           (k, v) \<Rightarrow>
             (case (QueryUnescape k, QueryUnescape v, parsePieces pieces) of
                (Some key, Some val, Some ps) \<Rightarrow> Some ((key, val) # ps)
              | _ \<Rightarrow> None)))"

definition ParseQuery :: "string \<Rightarrow> (string \<times> string) list option" where
  "ParseQuery query = parsePieces (splitOn CHR ''&'' query)"

text \<open>
  The bytes an escaped string is made of: the unreserved ones, \<^verbatim>\<open>%\<close> and
  \<^verbatim>\<open>+\<close>. A plain name is not empty and all of its bytes are unreserved. A
  parameter is written \<^verbatim>\<open>name=value\<close>, the value escaped.
\<close>

definition unreserved :: "char \<Rightarrow> bool" where
  "unreserved c =
     (let n = (of_char c :: nat) in
      (97 \<le> n \<and> n \<le> 122) \<or> (65 \<le> n \<and> n \<le> 90) \<or> (48 \<le> n \<and> n \<le> 57)
       \<or> c = CHR ''-'' \<or> c = CHR ''_'' \<or> c = CHR ''.'' \<or> c = CHR ''~'')"

definition escaped :: "string \<Rightarrow> bool" where
  "escaped s = list_all (\<lambda>c. unreserved c \<or> c = CHR ''%'' \<or> c = CHR ''+'') s"

definition plain :: "string \<Rightarrow> bool" where
  "plain k = (k \<noteq> [] \<and> list_all unreserved k)"

definition piece :: "string \<times> string \<Rightarrow> string" where
  "piece p = fst p @ ''='' @ QueryEscape (snd p)"

subsection \<open>A round trip of one optional value\<close>

text \<open>
  A value behind a pointer survives marshalling and unmarshalling when its type's
  marshaller succeeds on it, does not write \<^verbatim>\<open>null\<close>, and storing what it wrote
  into a zero value gives the value back. A nil pointer is never marshalled.
\<close>

definition roundtrips :: "'a jsonType \<Rightarrow> 'a option \<Rightarrow> bool" where
  "roundtrips X p =
     (case p of
        None \<Rightarrow> True
      | Some x \<Rightarrow>
          (case marshal X x of
             Inl e \<Rightarrow> False
           | Inr j \<Rightarrow> j \<noteq> JNull \<and> unmarshal X j (zeroValue X) = (x, Done)))"

text \<open>
  A store stops the decoder when it ends in an error returned at once. What an optional
  value comes back as: nothing for a nil pointer, else what storing its marshalled form
  into a nil pointer gives, with the outcome of that store. The value halts the decoder
  when that store stops it.
\<close>

definition stops :: "outcome \<Rightarrow> bool" where
  "stops out = (case out of Abort e \<Rightarrow> True | _ \<Rightarrow> False)"

definition restored :: "'a jsonType \<Rightarrow> 'a option \<Rightarrow> 'a option \<times> outcome" where
  "restored X p =
     (case p of
        None \<Rightarrow> (None, Done)
      | Some x \<Rightarrow>
          (case marshal X x of
             Inl e \<Rightarrow> (None, Done)
           | Inr j \<Rightarrow> pointer_store (zeroValue X) (unmarshal X) j None))"

definition halts :: "'a jsonType \<Rightarrow> 'a option \<Rightarrow> bool" where
  "halts X p = stops (snd (restored X p))"



subsection \<open>Instances for the examples\<close>

text \<open>
  Two Go types to stand for the declared ones in examples: \<^verbatim>\<open>string\<close>, and a
  struct without fields. The example service builds every request (the request is the
  URI) unless told to fail, and its transport answers every request alike.
\<close>

definition goString :: "string jsonType" where
  "goString =
     \<lparr>zeroValue = [], unmarshal = string_store, marshal = (\<lambda>s. Inr (JString (coerceUTF8 s)))\<rparr>"

definition emptyStruct :: "unit jsonType" where
  "emptyStruct =
     \<lparr>zeroValue = (), unmarshal = struct_store (\<lambda>f j v. (v, Done)) [],
      marshal = (\<lambda>v. Inr (JObject []))\<rparr>"

definition example_declared :: "(string, string, string, unit) declared" where
  "example_declared =
     \<lparr>AmountT = goString, URLT = goString, TimeT = goString, PaginationLinksT = emptyStruct\<rparr>"

definition stub :: "error option \<Rightarrow> error + body \<Rightarrow> (unit, string) ChargebacksService" where
  "stub builder transport =
     \<lparr>client =
        \<lparr>NewAPIRequest =
           (\<lambda>ctx method uri b. case builder of Some e \<Rightarrow> Inl e | None \<Rightarrow> Inr uri),
         Do = (\<lambda>req. case transport of Inl e \<Rightarrow> Inl e | Inr b \<Rightarrow> Inr \<lparr>content = b\<rparr>)\<rparr>\<rparr>"


section \<open>Properties\<close>

subsection \<open>Auxiliary facts\<close>

lemma query_Values_ChargebackOptions_unfold:
  "query_Values_ChargebackOptions opts =
     (reflectField (reflectField [] (''include'', Include opts)) (''embed'', Embed opts), None)"
  by (simp add: query_Values_ChargebackOptions_def reflect_ChargebackOptions_def)

lemma query_Values_ListChargebackOptions_unfold:
  "query_Values_ListChargebackOptions opts =
     (reflectField
        (reflectField (reflectField [] (''include'', Include opts)) (''embed'', Embed opts))
        (''profileId'', ProfileID opts), None)"
  by (simp add: query_Values_ListChargebackOptions_def reflect_ListChargebackOptions_def)

lemma Get_uri_unfold:
  "Get_uri paymentID chargebackID options =
     (let u = ''v2/payments/'' @ paymentID @ ''/chargebacks/'' @ chargebackID in
      case options of
        None \<Rightarrow> u
      | Some opts \<Rightarrow> append_query u (query_Values_ChargebackOptions opts))"
  by (cases options) (simp_all add: Get_uri_def Get_uri_of_def query_Values_ChargebackOptions_def)

lemma List_uri_unfold:
  "List_uri options =
     (let u = ''v2/chargebacks'' in
      case options of
        None \<Rightarrow> u
      | Some opts \<Rightarrow> append_query u (query_Values_ListChargebackOptions opts))"
  by (cases options)
     (simp_all add: List_uri_def List_uri_of_def query_Values_ListChargebackOptions_def)

lemma ListForPayment_uri_unfold:
  "ListForPayment_uri paymentID options =
     (let u = ''v2/payments/'' @ paymentID @ ''/chargebacks'' in
      case options of
        None \<Rightarrow> u
      | Some opts \<Rightarrow> append_query u (query_Values_ListChargebackOptions opts))"
  by (cases options)
     (simp_all add: ListForPayment_uri_def ListForPayment_uri_of_def
        query_Values_ListChargebackOptions_def)

lemma ChargebacksService_Get_unfold:
  "ChargebacksService_Get T cs ctx paymentID chargebackID options =
     (let u = Get_uri paymentID chargebackID options;
          p = zero_Chargeback in
      case NewAPIRequest (client cs) ctx MethodGet u None of
        Inl err \<Rightarrow> (p, Some err)
      | Inr req \<Rightarrow>
          (case Do (client cs) req of
             Inl err \<Rightarrow> (p, Some err)
           | Inr res \<Rightarrow> json_Unmarshal (Chargeback_store T) (content res) p))"
  by (simp add: ChargebacksService_Get_def ChargebacksService_Get_of_def Get_uri_def)

lemma ChargebacksService_List_unfold:
  "ChargebacksService_List T cs ctx options = ChargebacksService_list T cs ctx (List_uri options)"
  by (simp add: ChargebacksService_List_def ChargebacksService_List_of_def List_uri_def)

lemma ChargebacksService_ListForPayment_unfold:
  "ChargebacksService_ListForPayment T cs ctx paymentID options =
     ChargebacksService_list T cs ctx (ListForPayment_uri paymentID options)"
  by (simp add: ChargebacksService_ListForPayment_def ChargebacksService_ListForPayment_of_def
      ListForPayment_uri_def)

lemma QueryEscape_names:
  "QueryEscape ''embed'' = ''embed''" "QueryEscape ''include'' = ''include''"
  "QueryEscape ''profileId'' = ''profileId''"
  by (simp_all add: QueryEscape_def escape_byte_def shouldEscape_def)

lemma Encode_ChargebackOptions:
  "Encode (fst (query_Values_ChargebackOptions opts)) =
     spec_query [(''embed'', Embed opts), (''include'', Include opts)]"
  by (cases "Include opts = []"; cases "Embed opts = []")
     (simp_all add: query_Values_ChargebackOptions_unfold reflectField_def Encode_def
        spec_query_def QueryEscape_names)

lemma Encode_ListChargebackOptions:
  "Encode (fst (query_Values_ListChargebackOptions opts)) =
     spec_query [(''embed'', Embed opts), (''include'', Include opts),
                 (''profileId'', ProfileID opts)]"
  by (cases "Include opts = []"; cases "Embed opts = []"; cases "ProfileID opts = []")
     (simp_all add: query_Values_ListChargebackOptions_unfold reflectField_def Encode_def
        spec_query_def QueryEscape_names)

lemma append_query_fst: "append_query u r = u @ ''?'' @ Encode (fst r)"
  by (cases r) (simp add: append_query_def)

lemma json_Unmarshal_Malformed: "json_Unmarshal st Malformed v = (v, Some SyntaxError)"
  by (simp add: json_Unmarshal_def)

lemma Get_after_transport:
  assumes "NewAPIRequest (client cs) ctx MethodGet (Get_uri paymentID chargebackID options) None = Inr req"
    and "Do (client cs) req = Inr res"
  shows "ChargebacksService_Get T cs ctx paymentID chargebackID options =
           json_Unmarshal (Chargeback_store T) (content res) zero_Chargeback"
  using assms by (simp add: ChargebacksService_Get_unfold)

lemma list_after_transport:
  assumes "NewAPIRequest (client cs) ctx MethodGet uri None = Inr req"
    and "Do (client cs) req = Inr res"
  shows "ChargebacksService_list T cs ctx uri =
           json_Unmarshal (pointer_store (zero_ChargebackList T) (ChargebackList_store T))
             (content res) None"
  using assms by (simp add: ChargebacksService_list_def)

lemma stub_simps:
  "NewAPIRequest (client (stub None t)) ctx m u b = Inr u"
  "NewAPIRequest (client (stub (Some e) t)) ctx m u b = Inl e"
  "Do (client (stub bd (Inr d))) req = Inr \<lparr>content = d\<rparr>"
  "Do (client (stub bd (Inl e))) req = Inl e"
  by (simp_all add: stub_def)

lemma emptyStruct_empty_object:
  "unmarshal emptyStruct (JObject []) v = (v, Done)"
  by (simp add: emptyStruct_def struct_store_def)

lemma findField_chargebacks: "findField [''Chargebacks''] ''chargebacks'' = Some ''Chargebacks''"
  by code_simp


lemma roundtrips_Some:
  assumes "roundtrips X (Some x)"
  obtains j where "marshal X x = Inr j"
    and "pointer_store (zeroValue X) (unmarshal X) j None = (Some x, Done)"
proof -
  from assms obtain j where j: "marshal X x = Inr j" "j \<noteq> JNull"
    "unmarshal X j (zeroValue X) = (x, Done)"
    by (auto simp add: roundtrips_def split: sum.splits)
  then have "pointer_store (zeroValue X) (unmarshal X) j None = (Some x, Done)"
    by (cases j) (simp_all add: pointer_store_def)
  with j(1) show ?thesis by (rule that)
qed



lemma stops_simps [simp]: "stops Done = False" "stops (Saved e) = False" "stops (Abort e) = True"
  by (simp_all add: stops_def)







lemma roundtrips_restored: "roundtrips X p \<Longrightarrow> restored X p = (p, Done)"
  by (cases p) (auto simp add: restored_def elim: roundtrips_Some)

lemma roundtrips_not_halts: "roundtrips X p \<Longrightarrow> \<not> halts X p"
  by (simp add: halts_def roundtrips_restored)










lemma lt16_cases:
  "k < (16::nat) \<Longrightarrow> k = 0 \<or> k = 1 \<or> k = 2 \<or> k = 3 \<or> k = 4 \<or> k = 5 \<or> k = 6 \<or> k = 7 \<or> k = 8
     \<or> k = 9 \<or> k = 10 \<or> k = 11 \<or> k = 12 \<or> k = 13 \<or> k = 14 \<or> k = 15"
  by arith

lemma unhex_upperhex: "k < 16 \<Longrightarrow> unhex (upperhex k) = Some k"
  by (drule lt16_cases) (auto simp add: unhex_def upperhex_def)

lemma unreserved_upperhex: "k < 16 \<Longrightarrow> unreserved (upperhex k)"
  by (drule lt16_cases) (auto simp add: unreserved_def upperhex_def)

lemma shouldEscape_unreserved: "shouldEscape c = (\<not> unreserved c)"
  by (simp add: shouldEscape_def unreserved_def Let_def)

lemma unreserved_not_special:
  "unreserved c \<Longrightarrow> c \<noteq> CHR ''%'' \<and> c \<noteq> CHR ''+'' \<and> c \<noteq> CHR ''&'' \<and> c \<noteq> CHR ''='' \<and> c \<noteq> CHR '';''"
  by (auto simp add: unreserved_def)

lemma of_char_div16: "(of_char c :: nat) div 16 < 16"
proof -
  have "(of_char c :: nat) < 256" by simp
  then show ?thesis by arith
qed

lemma QueryUnescape_escape_byte:
  "QueryUnescape (escape_byte c @ rest) = map_option ((#) c) (QueryUnescape rest)"
proof (cases "unreserved c")
  case True
  then show ?thesis
    using unreserved_not_special [of c]
    by (simp add: escape_byte_def shouldEscape_unreserved)
next
  case False
  show ?thesis
  proof (cases "c = CHR '' ''")
    case True
    then show ?thesis by (simp add: escape_byte_def shouldEscape_unreserved unreserved_def)
  next
    case space: False
    have "char_of (16 * ((of_char c :: nat) div 16) + of_char c mod 16) = c"
      by simp
    with False space show ?thesis
      by (simp add: escape_byte_def shouldEscape_unreserved unhex_upperhex of_char_div16)
  qed
qed

lemma QueryUnescape_QueryEscape: "QueryUnescape (QueryEscape s) = Some s"
  by (induction s) (simp_all add: QueryEscape_def QueryUnescape_escape_byte)

lemma escaped_escape_byte: "escaped (escape_byte c)"
  by (simp add: escaped_def escape_byte_def shouldEscape_unreserved unreserved_upperhex
      of_char_div16)

lemma escaped_QueryEscape: "escaped (QueryEscape s)"
proof (induction s)
  case Nil
  show ?case by (simp add: QueryEscape_def escaped_def)
next
  case (Cons c s)
  with escaped_escape_byte [of c] show ?case by (simp add: QueryEscape_def escaped_def)
qed

lemma escaped_not_separator:
  "escaped s \<Longrightarrow> CHR ''&'' \<notin> set s \<and> CHR ''='' \<notin> set s \<and> CHR '';'' \<notin> set s"
  using unreserved_not_special by (auto simp add: escaped_def list_all_iff)

lemma plain_escaped: "plain k \<Longrightarrow> escaped k"
  by (simp add: plain_def escaped_def list_all_iff)

lemma QueryUnescape_unreserved: "list_all unreserved k \<Longrightarrow> QueryUnescape k = Some k"
  using unreserved_not_special by (induction k) auto

lemma splitOn_no_sep: "sep \<notin> set a \<Longrightarrow> splitOn sep a = [a]"
  by (induction a) auto

lemma splitOn_sep: "sep \<notin> set a \<Longrightarrow> splitOn sep (a @ sep # b) = a # splitOn sep b"
  by (induction a) auto

lemma cut_sep: "sep \<notin> set a \<Longrightarrow> cut sep (a @ sep # b) = (a, b)"
  by (induction a) auto

lemma piece_facts:
  assumes "plain k"
  shows "CHR ''&'' \<notin> set (piece (k, v))" and "CHR '';'' \<notin> set (piece (k, v))"
    and "piece (k, v) \<noteq> []" and "cut CHR ''='' (piece (k, v)) = (k, QueryEscape v)"
    and "QueryUnescape k = Some k"
  using assms escaped_not_separator [OF plain_escaped [OF assms]]
    escaped_not_separator [OF escaped_QueryEscape [of v]]
  by (simp_all add: piece_def cut_sep QueryUnescape_unreserved plain_def)

lemma parsePieces_piece:
  assumes "plain k"
  shows "parsePieces (piece (k, v) # pieces) = map_option ((#) (k, v)) (parsePieces pieces)"
  using piece_facts(1-4) [OF assms, where v = v] piece_facts(5) [OF assms]
  by (cases "parsePieces pieces") (simp_all add: QueryUnescape_QueryEscape)

lemma ParseQuery_join_amp:
  "list_all (\<lambda>p. plain (fst p)) ps \<Longrightarrow> ParseQuery (join_amp (map piece ps)) = Some ps"
proof (induction ps rule: induct_list012)
  case 1
  show ?case by (simp add: ParseQuery_def)
next
  case (2 p)
  obtain k v where p: "p = (k, v)" by (cases p)
  with 2 have k: "plain k" by simp
  from piece_facts(1) [OF k, where v = v] have "splitOn CHR ''&'' (piece (k, v)) = [piece (k, v)]"
    by (rule splitOn_no_sep)
  with k p show ?case by (simp add: ParseQuery_def parsePieces_piece del: parsePieces.simps(2))
next
  case (3 p q ps)
  obtain k v where p: "p = (k, v)" by (cases p)
  with 3 have k: "plain k" by simp
  from 3 have IH: "ParseQuery (join_amp (map piece (q # ps))) = Some (q # ps)" by simp
  from piece_facts(1) [OF k, where v = v]
  have "splitOn CHR ''&'' (piece (k, v) @ CHR ''&'' # join_amp (map piece (q # ps))) =
          piece (k, v) # splitOn CHR ''&'' (join_amp (map piece (q # ps)))"
    by (rule splitOn_sep)
  with IH k p show ?case by (simp add: ParseQuery_def parsePieces_piece del: parsePieces.simps(2))
qed

lemma spec_query_pieces:
  "spec_query params = join_amp (map piece (filter (\<lambda>(name, val). val \<noteq> []) params))"
proof -
  have "(\<lambda>(name, val). name @ ''='' @ QueryEscape val) = piece"
    by (simp add: piece_def fun_eq_iff)
  then show ?thesis by (simp only: spec_query_def)
qed

lemma plain_names: "plain ''embed''" "plain ''include''" "plain ''profileId''"
  by (simp_all add: plain_def unreserved_def)

lemma ParseQuery_spec_query:
  "list_all (\<lambda>p. plain (fst p)) params \<Longrightarrow>
   ParseQuery (spec_query params) = Some (filter (\<lambda>(name, val). val \<noteq> []) params)"
  unfolding spec_query_pieces
  by (rule ParseQuery_join_amp) (simp add: list_all_iff)

lemma query_Values_error: "snd (query_Values x) = Some e \<Longrightarrow> fst (query_Values x) = []"
  by (induction x) simp_all

subsection \<open>The request URIs\<close>

text \<open>
  Claim C1, which reads: for every paymentID and chargebackID, when the options are nil,
  \<^verbatim>\<open>Get\<close> constructs exactly the path
  \<^verbatim>\<open>payments/{paymentID}/chargebacks/{chargebackID}\<close>, with no query string and no
  \<^verbatim>\<open>?\<close>. The code puts \<^verbatim>\<open>v2/\<close> in front, and an identifier that holds a
  \<^verbatim>\<open>?\<close> brings it into the URI.
\<close>

theorem Get_uri_nil_options_counterexample:
  "Get_uri ''tr_7UhSN1zuXS'' ''chb_n9z0tp'' None \<noteq> ''payments/tr_7UhSN1zuXS/chargebacks/chb_n9z0tp''
   \<and> CHR ''?'' \<in> set (Get_uri ''tr?7'' ''chb_n9z0tp'' None)"
  by (simp add: Get_uri_unfold)

text \<open>
  Claim C1 as the code has it: with nil options the URI of \<^verbatim>\<open>Get\<close> is exactly
  \<^verbatim>\<open>v2/payments/{paymentID}/chargebacks/{chargebackID}\<close>; nothing is appended, so
  it holds a \<^verbatim>\<open>?\<close> only where an identifier does.
\<close>

theorem Get_uri_nil_options:
  "Get_uri paymentID chargebackID None = ''v2/payments/'' @ paymentID @ ''/chargebacks/'' @ chargebackID
   \<and> (CHR ''?'' \<in> set (Get_uri paymentID chargebackID None)) =
       (CHR ''?'' \<in> set paymentID \<or> CHR ''?'' \<in> set chargebackID)"
  by (auto simp add: Get_uri_unfold)

text \<open>
  Claim C3: for options that are not nil and have every field empty, the URI of
  \<^verbatim>\<open>Get\<close>, \<^verbatim>\<open>List\<close> and \<^verbatim>\<open>ListForPayment\<close> is the bare path followed
  by \<^verbatim>\<open>?\<close> and an empty query string.
\<close>

theorem empty_options_append_question_mark:
  assumes "Include opts = []" and "Embed opts = []"
    and "Include lopts = []" and "Embed lopts = []" and "ProfileID lopts = []"
  shows "Get_uri paymentID chargebackID (Some opts) =
           ''v2/payments/'' @ paymentID @ ''/chargebacks/'' @ chargebackID @ ''?''
         \<and> List_uri (Some lopts) = ''v2/chargebacks?''
         \<and> ListForPayment_uri paymentID (Some lopts) =
             ''v2/payments/'' @ paymentID @ ''/chargebacks?''"
  using assms
  by (simp add: Get_uri_unfold List_uri_unfold ListForPayment_uri_unfold append_query_fst
      Encode_ChargebackOptions Encode_ListChargebackOptions spec_query_def)

theorem empty_options_append_question_mark_witness:
  "Get_uri ''tr_7UhSN1zuXS'' ''chb_n9z0tp'' (Some \<lparr>Include = [], Embed = []\<rparr>) =
     ''v2/payments/tr_7UhSN1zuXS/chargebacks/chb_n9z0tp?''
   \<and> List_uri (Some \<lparr>Include = [], Embed = [], ProfileID = []\<rparr>) = ''v2/chargebacks?''
   \<and> ListForPayment_uri ''tr_7UhSN1zuXS'' (Some \<lparr>Include = [], Embed = [], ProfileID = []\<rparr>) =
       ''v2/payments/tr_7UhSN1zuXS/chargebacks?''"
  using empty_options_append_question_mark
    [of "\<lparr>Include = [], Embed = []\<rparr>" "\<lparr>Include = [], Embed = [], ProfileID = []\<rparr>"
        "''tr_7UhSN1zuXS''" "''chb_n9z0tp''"]
  by simp

text \<open>
  Claim C4: for options that are not nil, the query string holds exactly the non-empty
  fields, each under its declared name (\<^verbatim>\<open>include\<close>, \<^verbatim>\<open>embed\<close>,
  \<^verbatim>\<open>profileId\<close>) with its value URL-encoded, no parameter for an empty field and
  no other parameter. The URI is the path, \<^verbatim>\<open>?\<close>, and the non-empty fields as
  \<^verbatim>\<open>name=value\<close> joined by \<^verbatim>\<open>&\<close>, sorted by name; read back, that query
  string gives exactly the non-empty fields with their values as they were; an escaped
  value is made of unreserved bytes, \<^verbatim>\<open>%\<close> and \<^verbatim>\<open>+\<close> only and unescapes to
  the value; and one URI written out. All of it holds for all options, also those with
  no non-empty field.
\<close>

theorem query_holds_exactly_the_nonempty_fields:
  "Get_uri paymentID chargebackID (Some opts) =
     ''v2/payments/'' @ paymentID @ ''/chargebacks/'' @ chargebackID @ ''?'' @
       spec_query [(''embed'', Embed opts), (''include'', Include opts)]
   \<and> List_uri (Some lopts) =
       ''v2/chargebacks?'' @
         spec_query [(''embed'', Embed lopts), (''include'', Include lopts),
                     (''profileId'', ProfileID lopts)]
   \<and> ListForPayment_uri paymentID (Some lopts) =
       ''v2/payments/'' @ paymentID @ ''/chargebacks?'' @
         spec_query [(''embed'', Embed lopts), (''include'', Include lopts),
                     (''profileId'', ProfileID lopts)]
   \<and> ParseQuery (spec_query [(''embed'', Embed opts), (''include'', Include opts)]) =
       Some (filter (\<lambda>(name, val). val \<noteq> [])
               [(''embed'', Embed opts), (''include'', Include opts)])
   \<and> ParseQuery (spec_query [(''embed'', Embed lopts), (''include'', Include lopts),
                               (''profileId'', ProfileID lopts)]) =
       Some (filter (\<lambda>(name, val). val \<noteq> [])
               [(''embed'', Embed lopts), (''include'', Include lopts),
                (''profileId'', ProfileID lopts)])
   \<and> escaped (QueryEscape val)
   \<and> QueryUnescape (QueryEscape val) = Some val
   \<and> List_uri (Some \<lparr>Include = ''payment,a b'', Embed = [], ProfileID = ''pfl_&=?/%+''\<rparr>) =
       ''v2/chargebacks?include=payment%2Ca+b&profileId=pfl_%26%3D%3F%2F%25%2B''"
proof -
  have example:
    "List_uri (Some \<lparr>Include = ''payment,a b'', Embed = [], ProfileID = ''pfl_&=?/%+''\<rparr>) =
       ''v2/chargebacks?include=payment%2Ca+b&profileId=pfl_%26%3D%3F%2F%25%2B''"
    by code_simp
  have uris: "Get_uri paymentID chargebackID (Some opts) =
     ''v2/payments/'' @ paymentID @ ''/chargebacks/'' @ chargebackID @ ''?'' @
       spec_query [(''embed'', Embed opts), (''include'', Include opts)]"
    "List_uri (Some lopts) =
       ''v2/chargebacks?'' @
         spec_query [(''embed'', Embed lopts), (''include'', Include lopts),
                     (''profileId'', ProfileID lopts)]"
    "ListForPayment_uri paymentID (Some lopts) =
       ''v2/payments/'' @ paymentID @ ''/chargebacks?'' @
         spec_query [(''embed'', Embed lopts), (''include'', Include lopts),
                     (''profileId'', ProfileID lopts)]"
    by (simp_all add: Get_uri_unfold List_uri_unfold ListForPayment_uri_unfold append_query_fst
        Encode_ChargebackOptions Encode_ListChargebackOptions)
  have parse: "ParseQuery (spec_query [(''embed'', Embed opts), (''include'', Include opts)]) =
       Some (filter (\<lambda>(name, val). val \<noteq> [])
               [(''embed'', Embed opts), (''include'', Include opts)])"
    "ParseQuery (spec_query [(''embed'', Embed lopts), (''include'', Include lopts),
                               (''profileId'', ProfileID lopts)]) =
       Some (filter (\<lambda>(name, val). val \<noteq> [])
               [(''embed'', Embed lopts), (''include'', Include lopts),
                (''profileId'', ProfileID lopts)])"
    by (rule ParseQuery_spec_query, simp add: plain_names)+
  from uris parse escaped_QueryEscape [of val] QueryUnescape_QueryEscape [of val] example
  show ?thesis
    by blast
qed

text \<open>
  Claim C9: the error of \<^verbatim>\<open>query.Values\<close> is discarded in all three operations.
  For the options structs \<^verbatim>\<open>query.Values\<close> returns no error at all, so a failure
  of the encoder is shown on the operations as they treat any value handed to
  \<^verbatim>\<open>query.Values\<close> in the place of \<^verbatim>\<open>options\<close>, the operations proper being
  their instances at the options structs. Whenever \<^verbatim>\<open>query.Values\<close> fails, the
  query string is empty, the request goes out with the bare path and \<^verbatim>\<open>?\<close>, and
  what the operation returns is what the decoding of the response gives: the encoder's
  error is not returned. For every value the URI is made of the values alone.
\<close>

theorem query_error_discarded:
  assumes "snd (query_Values x) = Some e"
    and "NewAPIRequest (client cs) ctx MethodGet
           (''v2/payments/'' @ paymentID @ ''/chargebacks/'' @ chargebackID @ ''?'') None = Inr req"
    and "Do (client cs) req = Inr res"
    and "NewAPIRequest (client cs) ctx MethodGet ''v2/chargebacks?'' None = Inr req'"
    and "Do (client cs) req' = Inr res'"
    and "NewAPIRequest (client cs) ctx MethodGet
           (''v2/payments/'' @ paymentID @ ''/chargebacks?'') None = Inr req''"
    and "Do (client cs) req'' = Inr res''"
  shows "Get_uri_of paymentID chargebackID (Some x) =
           ''v2/payments/'' @ paymentID @ ''/chargebacks/'' @ chargebackID @ ''?''
         \<and> List_uri_of (Some x) = ''v2/chargebacks?''
         \<and> ListForPayment_uri_of paymentID (Some x) =
             ''v2/payments/'' @ paymentID @ ''/chargebacks?''
         \<and> ChargebacksService_Get_of T cs ctx paymentID chargebackID (Some x) =
             json_Unmarshal (Chargeback_store T) (content res) zero_Chargeback
         \<and> ChargebacksService_List_of T cs ctx (Some x) =
             json_Unmarshal (pointer_store (zero_ChargebackList T) (ChargebackList_store T))
               (content res') None
         \<and> ChargebacksService_ListForPayment_of T cs ctx paymentID (Some x) =
             json_Unmarshal (pointer_store (zero_ChargebackList T) (ChargebackList_store T))
               (content res'') None
         \<and> Get_uri_of paymentID chargebackID (Some y) =
             ''v2/payments/'' @ paymentID @ ''/chargebacks/'' @ chargebackID @ ''?'' @
               Encode (fst (query_Values y))
         \<and> List_uri_of (Some y) = ''v2/chargebacks?'' @ Encode (fst (query_Values y))
         \<and> ListForPayment_uri_of paymentID (Some y) =
             ''v2/payments/'' @ paymentID @ ''/chargebacks?'' @ Encode (fst (query_Values y))
         \<and> snd (query_Values (reflect_ChargebackOptions opts)) = None
         \<and> snd (query_Values (reflect_ListChargebackOptions lopts)) = None
         \<and> ChargebacksService_Get T cs ctx paymentID chargebackID options =
             ChargebacksService_Get_of T cs ctx paymentID chargebackID
               (map_option reflect_ChargebackOptions options)
         \<and> ChargebacksService_List T cs ctx loptions =
             ChargebacksService_List_of T cs ctx (map_option reflect_ListChargebackOptions loptions)
         \<and> ChargebacksService_ListForPayment T cs ctx paymentID loptions =
             ChargebacksService_ListForPayment_of T cs ctx paymentID
               (map_option reflect_ListChargebackOptions loptions)"
proof -
  from assms(1) have empty: "Encode (fst (query_Values x)) = []"
    by (simp add: query_Values_error Encode_def)
  have uris: "Get_uri_of paymentID chargebackID (Some x) =
           ''v2/payments/'' @ paymentID @ ''/chargebacks/'' @ chargebackID @ ''?''"
    "List_uri_of (Some x) = ''v2/chargebacks?''"
    "ListForPayment_uri_of paymentID (Some x) = ''v2/payments/'' @ paymentID @ ''/chargebacks?''"
    by (simp_all add: Get_uri_of_def List_uri_of_def ListForPayment_uri_of_def append_query_fst
        empty)
  have get: "ChargebacksService_Get_of T cs ctx paymentID chargebackID (Some x) =
             json_Unmarshal (Chargeback_store T) (content res) zero_Chargeback"
    using assms(2,3) by (simp add: ChargebacksService_Get_of_def uris)
  have lst: "ChargebacksService_List_of T cs ctx (Some x) =
             json_Unmarshal (pointer_store (zero_ChargebackList T) (ChargebackList_store T))
               (content res') None"
    using assms(4,5) by (simp add: ChargebacksService_List_of_def uris list_after_transport)
  have lfp: "ChargebacksService_ListForPayment_of T cs ctx paymentID (Some x) =
             json_Unmarshal (pointer_store (zero_ChargebackList T) (ChargebackList_store T))
               (content res'') None"
    using assms(6,7)
    by (simp add: ChargebacksService_ListForPayment_of_def uris list_after_transport)
  show ?thesis
    by (simp add: uris get lst lfp)
       (simp add: Get_uri_of_def List_uri_of_def ListForPayment_uri_of_def append_query_fst
          reflect_ChargebackOptions_def reflect_ListChargebackOptions_def
          ChargebacksService_Get_def ChargebacksService_List_def
          ChargebacksService_ListForPayment_def)
qed

theorem query_error_discarded_witness:
  "snd (query_Values (Other ''string'')) =
     Some (QueryValuesError ''query: Values() expects struct input. Got string'')
   \<and> Get_uri_of ''tr_1'' ''chb_1'' (Some (Other ''string'')) = ''v2/payments/tr_1/chargebacks/chb_1?''
   \<and> List_uri_of (Some (Other ''string'')) = ''v2/chargebacks?''
   \<and> ListForPayment_uri_of ''tr_1'' (Some (Other ''string'')) = ''v2/payments/tr_1/chargebacks?''
   \<and> ChargebacksService_Get_of example_declared (stub None (Inr (Document JNull))) ()
       ''tr_1'' ''chb_1'' (Some (Other ''string'')) = (zero_Chargeback, None)
   \<and> ChargebacksService_List_of example_declared (stub None (Inr (Document JNull))) ()
       (Some (Other ''string'')) = (None, None)
   \<and> ChargebacksService_ListForPayment_of example_declared (stub None (Inr (Document JNull))) ()
       ''tr_1'' (Some (Other ''string'')) = (None, None)"
  using query_error_discarded
    [where x = "Other ''string''"
       and e = "QueryValuesError ''query: Values() expects struct input. Got string''"
       and cs = "stub None (Inr (Document JNull))" and ctx = "()"
       and paymentID = "''tr_1''" and chargebackID = "''chb_1''"
       and req = "''v2/payments/tr_1/chargebacks/chb_1?''" and res = "\<lparr>content = Document JNull\<rparr>"
       and req' = "''v2/chargebacks?''" and res' = "\<lparr>content = Document JNull\<rparr>"
       and req'' = "''v2/payments/tr_1/chargebacks?''" and res'' = "\<lparr>content = Document JNull\<rparr>"
       and T = example_declared and y = "Other ''string''"
       and opts = "\<lparr>Include = [], Embed = []\<rparr>"
       and lopts = "\<lparr>Include = [], Embed = [], ProfileID = []\<rparr>"
       and options = None and loptions = None]
  by (simp add: stub_simps json_Unmarshal_def Chargeback_store_def struct_store_def
      pointer_store_def)

subsection \<open>The operations\<close>

text \<open>
  Claim C8: \<^verbatim>\<open>Get\<close> and \<^verbatim>\<open>ListForPayment\<close> do not validate the
  identifiers. For all strings, the empty one too, the identifiers go into the path as
  they are (both empty: \<^verbatim>\<open>v2/payments//chargebacks/\<close>), and once the request
  builder and the transport have accepted the request the operation goes on to decode
  the response: only the collaborators can reject an identifier.
\<close>

theorem identifiers_are_not_validated:
  assumes "NewAPIRequest (client cs) ctx MethodGet (Get_uri paymentID chargebackID options) None = Inr req"
    and "Do (client cs) req = Inr res"
    and "NewAPIRequest (client cs') ctx' MethodGet (ListForPayment_uri paymentID' options') None = Inr req'"
    and "Do (client cs') req' = Inr res'"
  shows "ChargebacksService_Get T cs ctx paymentID chargebackID options =
           json_Unmarshal (Chargeback_store T) (content res) zero_Chargeback
         \<and> ChargebacksService_ListForPayment T cs' ctx' paymentID' options' =
             json_Unmarshal (pointer_store (zero_ChargebackList T) (ChargebackList_store T))
               (content res') None
         \<and> Get_uri paymentID chargebackID None =
             ''v2/payments/'' @ paymentID @ ''/chargebacks/'' @ chargebackID
         \<and> ListForPayment_uri paymentID' None = ''v2/payments/'' @ paymentID' @ ''/chargebacks''
         \<and> Get_uri [] [] None = ''v2/payments//chargebacks/''
         \<and> ListForPayment_uri [] None = ''v2/payments//chargebacks''"
  using assms
  by (simp add: Get_after_transport list_after_transport ChargebacksService_ListForPayment_unfold
      Get_uri_unfold ListForPayment_uri_unfold)

theorem identifiers_are_not_validated_witness:
  "ChargebacksService_Get example_declared (stub None (Inr (Document JNull))) () [] [] None =
     (zero_Chargeback, None)
   \<and> ChargebacksService_ListForPayment example_declared (stub None (Inr (Document JNull))) () [] None =
       (None, None)
   \<and> Get_uri [] [] None = ''v2/payments//chargebacks/''
   \<and> ListForPayment_uri [] None = ''v2/payments//chargebacks''"
  using identifiers_are_not_validated
    [of "stub None (Inr (Document JNull))" "()" "[]" "[]" None "''v2/payments//chargebacks/''"
        "\<lparr>content = Document JNull\<rparr>" "stub None (Inr (Document JNull))" "()" "[]" None
        "''v2/payments//chargebacks''" "\<lparr>content = Document JNull\<rparr>" example_declared]
  by (simp add: stub_simps Get_uri_unfold ListForPayment_uri_unfold json_Unmarshal_def
      Chargeback_store_def struct_store_def pointer_store_def)

text \<open>
  Claim C2, which reads: with every error of \<^verbatim>\<open>Get\<close>, \<^verbatim>\<open>List\<close> or
  \<^verbatim>\<open>ListForPayment\<close>, also one of JSON decoding, comes the zero value. A type
  mismatch is reported after \<^verbatim>\<open>json.Unmarshal\<close> has stored what did fit: for the
  body \<^verbatim>\<open>{"id":"chb_1","resource":5}\<close> \<^verbatim>\<open>Get\<close> returns the error and a
  Chargeback with its ID set, and for the body \<^verbatim>\<open>5\<close> \<^verbatim>\<open>List\<close> returns the
  error and a pointer that is not nil.
\<close>

theorem decode_error_partial_result_counterexample:
  "ChargebacksService_Get example_declared
     (stub None (Inr (Document (JObject [(''id'', JString ''chb_1''), (''resource'', JNumber ''5'')]))))
     () ''tr_1'' ''chb_1'' None =
     (zero_Chargeback\<lparr>ID := ''chb_1''\<rparr>, Some (UnmarshalTypeError ''number''))
   \<and> (zero_Chargeback\<lparr>ID := ''chb_1''\<rparr> :: (string, string, string) Chargeback) \<noteq> zero_Chargeback
   \<and> ChargebacksService_List example_declared (stub None (Inr (Document (JNumber ''5'')))) () None =
       (Some (zero_ChargebackList example_declared), Some (UnmarshalTypeError ''number''))"
  by (simp add: ChargebacksService_Get_unfold ChargebacksService_List_unfold ChargebacksService_list_def
      stub_simps json_Unmarshal_def Chargeback_store_def struct_store_def findField_def
      Chargeback_names_def Chargeback_setField_def string_store_def andThen_def
      zero_Chargeback_def pointer_store_def ChargebackList_store_def)

text \<open>
  Claim C2 as the code has it: with an error of the request builder, an error of the
  transport, or the syntax error of a body that is not JSON, \<^verbatim>\<open>Get\<close> returns the
  zero Chargeback and \<^verbatim>\<open>List\<close> and \<^verbatim>\<open>ListForPayment\<close> return nil.
\<close>

theorem error_before_decoding_returns_zero_value:
  "(NewAPIRequest (client cs) ctx MethodGet (Get_uri paymentID chargebackID options) None = Inl e \<longrightarrow>
      ChargebacksService_Get T cs ctx paymentID chargebackID options = (zero_Chargeback, Some e))
   \<and> (NewAPIRequest (client cs) ctx MethodGet (Get_uri paymentID chargebackID options) None = Inr req
        \<and> Do (client cs) req = Inl e \<longrightarrow>
      ChargebacksService_Get T cs ctx paymentID chargebackID options = (zero_Chargeback, Some e))
   \<and> (NewAPIRequest (client cs) ctx MethodGet (Get_uri paymentID chargebackID options) None = Inr req
        \<and> Do (client cs) req = Inr res \<and> content res = Malformed \<longrightarrow>
      ChargebacksService_Get T cs ctx paymentID chargebackID options =
        (zero_Chargeback, Some SyntaxError))
   \<and> (NewAPIRequest (client cs) ctx MethodGet uri None = Inl e \<longrightarrow>
      ChargebacksService_list T cs ctx uri = (None, Some e))
   \<and> (NewAPIRequest (client cs) ctx MethodGet uri None = Inr lreq \<and> Do (client cs) lreq = Inl e \<longrightarrow>
      ChargebacksService_list T cs ctx uri = (None, Some e))
   \<and> (NewAPIRequest (client cs) ctx MethodGet uri None = Inr lreq \<and> Do (client cs) lreq = Inr lres
        \<and> content lres = Malformed \<longrightarrow>
      ChargebacksService_list T cs ctx uri = (None, Some SyntaxError))
   \<and> ChargebacksService_List T cs ctx loptions = ChargebacksService_list T cs ctx (List_uri loptions)
   \<and> ChargebacksService_ListForPayment T cs ctx paymentID loptions =
       ChargebacksService_list T cs ctx (ListForPayment_uri paymentID loptions)"
  by (simp add: ChargebacksService_Get_unfold ChargebacksService_list_def ChargebacksService_List_unfold
      ChargebacksService_ListForPayment_unfold json_Unmarshal_Malformed)

theorem error_before_decoding_returns_zero_value_witness:
  "ChargebacksService_Get example_declared
     (stub (Some (RequestConstructionError ''bad url'')) (Inr Malformed)) () ''tr_1'' ''chb_1'' None =
     (zero_Chargeback, Some (RequestConstructionError ''bad url''))
   \<and> ChargebacksService_Get example_declared
       (stub None (Inl (TransportError ''404''))) () ''tr_1'' ''chb_1'' None =
       (zero_Chargeback, Some (TransportError ''404''))
   \<and> ChargebacksService_Get example_declared (stub None (Inr Malformed)) () ''tr_1'' ''chb_1'' None =
       (zero_Chargeback, Some SyntaxError)
   \<and> ChargebacksService_List example_declared
       (stub (Some (RequestConstructionError ''bad url'')) (Inr Malformed)) () None =
       (None, Some (RequestConstructionError ''bad url''))
   \<and> ChargebacksService_List example_declared (stub None (Inl (TransportError ''404''))) () None =
       (None, Some (TransportError ''404''))
   \<and> ChargebacksService_ListForPayment example_declared (stub None (Inr Malformed)) () ''tr_1'' None =
       (None, Some SyntaxError)"
  using
    error_before_decoding_returns_zero_value
      [where cs = "stub (Some (RequestConstructionError ''bad url'')) (Inr Malformed)"
         and ctx = "()" and paymentID = "''tr_1''" and chargebackID = "''chb_1''"
         and options = None and e = "RequestConstructionError ''bad url''"
         and T = example_declared and uri = "List_uri None" and loptions = None]
    error_before_decoding_returns_zero_value
      [where cs = "stub None (Inl (TransportError ''404''))"
         and ctx = "()" and paymentID = "''tr_1''" and chargebackID = "''chb_1''"
         and options = None and e = "TransportError ''404''"
         and req = "''v2/payments/tr_1/chargebacks/chb_1''" and lreq = "''v2/chargebacks''"
         and T = example_declared and uri = "List_uri None" and loptions = None]
    error_before_decoding_returns_zero_value
      [where cs = "stub None (Inr Malformed)"
         and ctx = "()" and paymentID = "''tr_1''" and chargebackID = "''chb_1''"
         and options = None
         and req = "''v2/payments/tr_1/chargebacks/chb_1''" and res = "\<lparr>content = Malformed\<rparr>"
         and lreq = "''v2/payments/tr_1/chargebacks''" and lres = "\<lparr>content = Malformed\<rparr>"
         and T = example_declared and uri = "ListForPayment_uri ''tr_1'' None" and loptions = None]
  by (simp add: stub_simps Get_uri_unfold List_uri_unfold ListForPayment_uri_unfold)

text \<open>
  Claim C5: \<^verbatim>\<open>List\<close> and \<^verbatim>\<open>ListForPayment\<close> go through the same decoding.
  When the transport hands both the same body, they return the same list and the same
  error.
\<close>

theorem List_and_ListForPayment_share_the_decode_path:
  assumes "NewAPIRequest (client cs) ctx MethodGet (List_uri options) None = Inr req"
    and "Do (client cs) req = Inr res"
    and "NewAPIRequest (client cs') ctx' MethodGet (ListForPayment_uri paymentID options') None = Inr req'"
    and "Do (client cs') req' = Inr res'"
    and "content res = content res'"
  shows "ChargebacksService_List T cs ctx options =
           ChargebacksService_ListForPayment T cs' ctx' paymentID options'"
  using assms
  by (simp add: ChargebacksService_List_unfold ChargebacksService_ListForPayment_unfold
      list_after_transport)

theorem List_and_ListForPayment_share_the_decode_path_witness:
  "ChargebacksService_List example_declared
     (stub None (Inr (Document (JObject [(''count'', JNumber ''2'')])))) ()
     (Some \<lparr>Include = [], Embed = [], ProfileID = ''pfl_1''\<rparr>) =
   ChargebacksService_ListForPayment example_declared
     (stub None (Inr (Document (JObject [(''count'', JNumber ''2'')])))) () ''tr_7UhSN1zuXS'' None"
  by (rule List_and_ListForPayment_share_the_decode_path
        [where req = "''v2/chargebacks?profileId=pfl_1''"
           and req' = "''v2/payments/tr_7UhSN1zuXS/chargebacks''"
           and res = "\<lparr>content = Document (JObject [(''count'', JNumber ''2'')])\<rparr>"
           and res' = "\<lparr>content = Document (JObject [(''count'', JNumber ''2'')])\<rparr>"])
     (simp_all add: stub_simps List_uri_unfold ListForPayment_uri_unfold append_query_fst
        Encode_ListChargebackOptions spec_query_def QueryEscape_def escape_byte_def shouldEscape_def)

text \<open>
  Claim C7: \<^verbatim>\<open>List\<close> with nil options, answered with the body
  \<^verbatim>\<open>{"count":1,"_embedded":{"chargebacks":[{"id":"chb_1"}]},"_links":{}}\<close>,
  returns a list that is not nil, with Count 1 and exactly one embedded Chargeback, of ID
  \<^verbatim>\<open>chb_1\<close>, and a nil error. \<^verbatim>\<open>PaginationLinks\<close> is declared outside the
  file: the empty object is taken to decode into it without error.
\<close>

theorem List_scenario:
  assumes "NewAPIRequest (client cs) ctx MethodGet ''v2/chargebacks'' None = Inr req"
    and "Do (client cs) req = Inr res"
    and "content res =
           Document (JObject
             [(''count'', JNumber ''1''),
              (''_embedded'', JObject [(''chargebacks'', JArray [JObject [(''id'', JString ''chb_1'')]])]),
              (''_links'', JObject [])])"
    and "snd (unmarshal (PaginationLinksT T) (JObject []) (zeroValue (PaginationLinksT T))) = Done"
  shows "\<exists>cl. ChargebacksService_List T cs ctx None = (Some cl, None)
              \<and> Count cl = 1
              \<and> Chargebacks (Embedded cl) = Some [zero_Chargeback\<lparr>ID := ''chb_1''\<rparr>]"
proof -
  obtain l where l: "unmarshal (PaginationLinksT T) (JObject []) (zeroValue (PaginationLinksT T)) = (l, Done)"
    using assms(4) by (cases "unmarshal (PaginationLinksT T) (JObject []) (zeroValue (PaginationLinksT T))") auto
  have count: "ParseInt ''1'' = Some 1"
    by (simp add: ParseInt_def ParseUint_def isDigit_def)
  have item: "Chargeback_store T (JObject [(''id'', JString ''chb_1'')]) zero_Chargeback =
                (zero_Chargeback\<lparr>ID := ''chb_1''\<rparr>, Done)"
    by (simp add: Chargeback_store_def struct_store_def findField_def Chargeback_names_def
        Chargeback_setField_def string_store_def andThen_def)
  have embedded: "Embedded_store T (JObject [(''chargebacks'', JArray [JObject [(''id'', JString ''chb_1'')]])])
                    \<lparr>Chargebacks = None\<rparr> =
                  (\<lparr>Chargebacks = Some [zero_Chargeback\<lparr>ID := ''chb_1''\<rparr>]\<rparr>, Done)"
    by (simp add: Embedded_store_def struct_store_def findField_chargebacks Embedded_setField_def
        slice_store_def item andThen_def)
  have "ChargebackList_store T
          (JObject
             [(''count'', JNumber ''1''),
              (''_embedded'', JObject [(''chargebacks'', JArray [JObject [(''id'', JString ''chb_1'')]])]),
              (''_links'', JObject [])])
          (zero_ChargebackList T) =
        (\<lparr>Count = 1, Embedded = \<lparr>Chargebacks = Some [zero_Chargeback\<lparr>ID := ''chb_1''\<rparr>]\<rparr>,
          ChargebackList.Links = l\<rparr>, Done)"
    by (simp add: ChargebackList_store_def struct_store_def findField_def ChargebackList_names_def
        ChargebackList_setField_def int_store_def count embedded l andThen_def
        zero_ChargebackList_def)
  then show ?thesis
    using assms(1-3)
    by (simp add: ChargebacksService_List_unfold List_uri_unfold list_after_transport
        json_Unmarshal_def pointer_store_def)
qed

theorem List_scenario_witness:
  "\<exists>cl. ChargebacksService_List example_declared
          (stub None (Inr (Document (JObject
             [(''count'', JNumber ''1''),
              (''_embedded'', JObject [(''chargebacks'', JArray [JObject [(''id'', JString ''chb_1'')]])]),
              (''_links'', JObject [])])))) () None = (Some cl, None)
        \<and> Count cl = 1
        \<and> Chargebacks (Embedded cl) = Some [zero_Chargeback\<lparr>ID := ''chb_1''\<rparr>]"
  by (rule List_scenario
        [where req = "''v2/chargebacks''"
           and res = "\<lparr>content = Document (JObject
             [(''count'', JNumber ''1''),
              (''_embedded'', JObject [(''chargebacks'', JArray [JObject [(''id'', JString ''chb_1'')]])]),
              (''_links'', JObject [])])\<rparr>"])
     (simp_all add: stub_simps example_declared_def emptyStruct_empty_object)

text \<open>
  Claim C10: when the transport succeeds and the body is the JSON literal
  \<^verbatim>\<open>null\<close>, \<^verbatim>\<open>List\<close> and \<^verbatim>\<open>ListForPayment\<close> return a nil list with a
  nil error.
\<close>

theorem null_body_gives_nil_nil:
  assumes "NewAPIRequest (client cs) ctx MethodGet (List_uri options) None = Inr req"
    and "Do (client cs) req = Inr res"
    and "content res = Document JNull"
    and "NewAPIRequest (client cs') ctx' MethodGet (ListForPayment_uri paymentID options') None = Inr req'"
    and "Do (client cs') req' = Inr res'"
    and "content res' = Document JNull"
  shows "ChargebacksService_List T cs ctx options = (None, None)
         \<and> ChargebacksService_ListForPayment T cs' ctx' paymentID options' = (None, None)"
  using assms
  by (simp add: ChargebacksService_List_unfold ChargebacksService_ListForPayment_unfold
      list_after_transport json_Unmarshal_def pointer_store_def)

theorem null_body_gives_nil_nil_witness:
  "ChargebacksService_List example_declared (stub None (Inr (Document JNull))) () None = (None, None)
   \<and> ChargebacksService_ListForPayment example_declared (stub None (Inr (Document JNull))) ()
       ''tr_7UhSN1zuXS'' None = (None, None)"
  by (rule null_body_gives_nil_nil
        [where req = "''v2/chargebacks''" and req' = "''v2/payments/tr_7UhSN1zuXS/chargebacks''"
           and res = "\<lparr>content = Document JNull\<rparr>" and res' = "\<lparr>content = Document JNull\<rparr>"])
     (simp_all add: stub_simps List_uri_unfold ListForPayment_uri_unfold)

subsection \<open>Marshalling and unmarshalling a Chargeback\<close>




end
